theory Spec2Isabelle
  imports Complex_Main
begin

text \<open>
  The data path of the dashboard: the coercion of spreadsheet cells to numbers and texts,
  the mapping of parsed rows to inquiry records and the row filter, the fetch pipeline and
  the refresh of the component state with its two timers, the two-day reporting window,
  the totals and percentages, and the passcode gate. Promises are values that are fulfilled
  or rejected; component state is a record that each handler returns updated.
\<close>

section \<open>JavaScript numbers\<close>

text \<open>
  A JavaScript \<^verbatim>\<open>number\<close> is NaN, one of the two infinities, or a finite binary64 value.
  A finite value is represented by the rational it denotes. Two edges of binary64 are
  modelled exactly, because the program's comparisons can see them: a magnitude at or
  beyond \<open>2^1024 - 2^970\<close> rounds to an infinity, and a magnitude of at most
  \<open>2^-1075\<close> rounds to zero. The rounding of a value between these edges to its
  nearest binary64 neighbour is not modelled, and the two zeros are not told apart.
\<close>

datatype jsnum = NaN | PosInf | NegInf | Fin rat

definition DBL_OVERFLOW :: rat where
  "DBL_OVERFLOW = 2 ^ 1024 - 2 ^ 970"

definition DBL_UNDERFLOW :: rat where
  "DBL_UNDERFLOW = 1 / 2 ^ 1075"

definition toDouble :: "rat \<Rightarrow> jsnum" where
  "toDouble v =
     (if DBL_OVERFLOW \<le> v then PosInf
      else if v \<le> - DBL_OVERFLOW then NegInf
      else if \<bar>v\<bar> \<le> DBL_UNDERFLOW then Fin 0
      else Fin v)"

fun isNaN :: "jsnum \<Rightarrow> bool" where
  "isNaN NaN = True"
| "isNaN _ = False"

fun isFinite :: "jsnum \<Rightarrow> bool" where
  "isFinite (Fin _) = True"
| "isFinite _ = False"

text \<open>\<^verbatim>\<open>ToBoolean\<close> of a number: false for zero and NaN.\<close>

fun truthy_num :: "jsnum \<Rightarrow> bool" where
  "truthy_num NaN = False"
| "truthy_num (Fin v) = (v \<noteq> 0)"
| "truthy_num _ = True"

text \<open>\<^verbatim>\<open>x || 0\<close> on a number.\<close>

definition or_zero :: "jsnum \<Rightarrow> jsnum" where
  "or_zero x = (if truthy_num x then x else Fin 0)"

text \<open>\<^verbatim>\<open>x > 0\<close> on a number.\<close>

fun gt_zero :: "jsnum \<Rightarrow> bool" where
  "gt_zero (Fin v) = (0 < v)"
| "gt_zero PosInf = True"
| "gt_zero _ = False"

fun jsadd :: "jsnum \<Rightarrow> jsnum \<Rightarrow> jsnum" where
  "jsadd NaN _ = NaN"
| "jsadd _ NaN = NaN"
| "jsadd PosInf NegInf = NaN"
| "jsadd NegInf PosInf = NaN"
| "jsadd PosInf _ = PosInf"
| "jsadd _ PosInf = PosInf"
| "jsadd NegInf _ = NegInf"
| "jsadd _ NegInf = NegInf"
| "jsadd (Fin a) (Fin b) = toDouble (a + b)"

fun jsneg :: "jsnum \<Rightarrow> jsnum" where
  "jsneg NaN = NaN"
| "jsneg PosInf = NegInf"
| "jsneg NegInf = PosInf"
| "jsneg (Fin a) = Fin (- a)"

definition jssub :: "jsnum \<Rightarrow> jsnum \<Rightarrow> jsnum" where
  "jssub a b = jsadd a (jsneg b)"






section \<open>Strings\<close>

text \<open>
  Texts are character lists. White space is the ASCII white space that
  \<^verbatim>\<open>String.prototype.trim\<close> removes: tab, line feed, vertical tab, form feed, carriage
  return and space.
\<close>

definition isSpace :: "char \<Rightarrow> bool" where
  "isSpace c = (of_char c \<in> {9::nat, 10, 11, 12, 13, 32})"

definition trim :: "string \<Rightarrow> string" where
  "trim s = rev (dropWhile isSpace (rev (dropWhile isSpace s)))"




section \<open>Field coercion\<close>

definition isDigit :: "char \<Rightarrow> bool" where
  "isDigit c = (c \<in> set ''0123456789'')"

definition digitVal :: "char \<Rightarrow> nat" where
  "digitVal c = of_char c - 48"

definition digitsVal :: "string \<Rightarrow> nat" where
  "digitsVal ds = foldl (\<lambda>a c. 10 * a + digitVal c) 0 ds"

text \<open>The character class \<^verbatim>\<open>[0-9.\-]\<close> of the cleaning pattern.\<close>

definition keepChar :: "char \<Rightarrow> bool" where
  "keepChar c = (isDigit c \<or> c = CHR ''.'' \<or> c = CHR ''-'')"

text \<open>\<^verbatim>\<open>String(val).replace(/[^0-9.\-]+/g, '')\<close>: every run of other characters is removed.\<close>

definition cleaned :: "string \<Rightarrow> string" where
  "cleaned val = filter keepChar val"

fun signSplit :: "string \<Rightarrow> bool \<times> string" where
  "signSplit [] = (False, [])"
| "signSplit (c # cs) = (if c = CHR ''-'' then (True, cs) else (False, c # cs))"

definition signed :: "bool \<Rightarrow> rat \<Rightarrow> rat" where
  "signed neg v = (if neg then - v else v)"

text \<open>
  \<^verbatim>\<open>Number(text)\<close> on a text over the alphabet of digits, \<^verbatim>\<open>.\<close> and \<^verbatim>\<open>-\<close>, the only
  texts \<^verbatim>\<open>parseNumber\<close> passes to it. The empty text is \<open>0\<close>. Otherwise the text must be
  an optional \<^verbatim>\<open>-\<close> followed by digits, digits with a point and optional digits, or a
  point with digits; anything else is NaN.
\<close>

definition StringToNumber :: "string \<Rightarrow> jsnum" where
  "StringToNumber s =
     (if s = [] then Fin 0
      else case signSplit s of (neg, body) \<Rightarrow>
        (let ip = takeWhile isDigit body in
         case dropWhile isDigit body of
           [] \<Rightarrow> if ip = [] then NaN else toDouble (signed neg (of_nat (digitsVal ip)))
         | c # fp \<Rightarrow>
             if c = CHR ''.'' \<and> list_all isDigit fp \<and> (ip \<noteq> [] \<or> fp \<noteq> [])
             then toDouble (signed neg (of_nat (digitsVal (ip @ fp)) / 10 ^ length fp))
             else NaN))"

text \<open>
  \<^verbatim>\<open>parseNumber(val)\<close>. The argument is a text, or absent (\<^verbatim>\<open>undefined\<close> or \<^verbatim>\<open>null\<close>);
  \<^verbatim>\<open>!val\<close> holds for the absent and for the empty text.
\<close>

definition parseNumber :: "string option \<Rightarrow> jsnum" where
  "parseNumber val =
     (case val of
        None \<Rightarrow> Fin 0
      | Some s \<Rightarrow>
          if s = [] then Fin 0
          else let num = StringToNumber (cleaned s) in if isNaN num then Fin 0 else num)"

section \<open>The inquiry record\<close>

record Inquiry =
  rowNum :: jsnum
  year :: jsnum
  month :: string
  date :: jsnum
  folderNumber :: string
  week :: string
  vesselName :: string
  eta :: string
  port :: string
  principal :: string
  country :: string
  service :: string
  category :: string
  qtnValue :: jsnum
  qtnCost :: jsnum
  qtnProfit :: jsnum
  qtnMargin :: jsnum
  marginPercent :: jsnum
  discountPercent :: string
  qtnStatus :: string
  update :: string
  contactPerson :: string
  contactNumber :: string
  contactEmail :: string
  pic :: string
  clientStatus :: string
  remarks :: string
  rfqNumber :: string

section \<open>Record mapper\<close>

text \<open>
  A row of the parse, keyed by header text. A header the row has no cell for reads as
  \<^verbatim>\<open>undefined\<close>, here \<open>None\<close>.
\<close>

type_synonym RawRow = "string \<rightharpoonup> string"

text \<open>\<^verbatim>\<open>cell || ''\<close>.\<close>

definition or_empty :: "string option \<Rightarrow> string" where
  "or_empty cell = (case cell of None \<Rightarrow> [] | Some v \<Rightarrow> v)"

text \<open>\<^verbatim>\<open>a || b\<close> on two cells: the first one unless it is absent or empty.\<close>

definition or_cell :: "string option \<Rightarrow> string option \<Rightarrow> string option" where
  "or_cell a b = (case a of None \<Rightarrow> b | Some v \<Rightarrow> if v = [] then b else a)"

text \<open>
  What the parser reports: the rows, and \<^verbatim>\<open>meta.fields\<close>, the header list, which may be
  absent.
\<close>

record ParseResult =
  data :: "RawRow list"
  meta_fields :: "string list option"

text \<open>
  \<^verbatim>\<open>results.meta.fields ? results.meta.fields[0] : 'FOLDER NUMBER'\<close>. An empty header
  list is truthy and its element \<open>0\<close> is \<^verbatim>\<open>undefined\<close>, which as a property key reads
  the key \<^verbatim>\<open>undefined\<close>.
\<close>

definition firstHeader :: "string list option \<Rightarrow> string" where
  "firstHeader hs =
     (case hs of
        None \<Rightarrow> ''FOLDER NUMBER''
      | Some [] \<Rightarrow> ''undefined''
      | Some (h # _) \<Rightarrow> h)"

text \<open>The mapping callback of the data service with the dynamic first column.\<close>

definition mapRow :: "string \<Rightarrow> RawRow \<Rightarrow> Inquiry" where
  "mapRow fh row =
     \<lparr> rowNum = or_zero (parseNumber (row fh)),
       year = parseNumber (row ''YEAR''),
       month = or_empty (row ''MONTH''),
       date = parseNumber (row ''DATE''),
       folderNumber = or_empty (row fh),
       week = or_empty (or_cell (row ''WEEK '') (row ''WEEK'')),
       vesselName = trim (or_empty (row ''VESSEL NAME'')),
       eta = or_empty (row ''ETA''),
       port = or_empty (row ''PORT''),
       principal = or_empty (row ''PRINCIPAL''),
       country = or_empty (row ''COUNTRY''),
       service = or_empty (row ''SERVICE''),
       category = or_empty (row ''CATEGORY''),
       qtnValue = parseNumber (row ''PDA / QTN VALUE''),
       qtnCost = parseNumber (or_cell (row ''PDA / QTN  COST'') (row ''PDA / QTN COST'')),
       qtnProfit = parseNumber (row ''PDA / QTN PROFIT''),
       qtnMargin = parseNumber (row ''PDA / QTN MARGIN''),
       marginPercent = parseNumber (row ''MARGIN %''),
       discountPercent = or_empty (row ''DISCOUNT %''),
       qtnStatus = trim (or_empty (row ''QTN STATUS'')),
       update = trim (or_empty (row ''UPDATE'')),
       contactPerson = trim (or_empty (or_cell (row ''CONTACT PERSON '') (row ''CONTACT PERSON''))),
       contactNumber = or_empty (row ''CONTACT NUMBER''),
       contactEmail = or_empty (row (''CONTACT PERSON'' @ [CHR 0x27] @ ''S EMAIL'')),
       pic = or_empty (row ''PIC''),
       clientStatus = or_empty (row ''CLIENT STATUS''),
       remarks = or_empty (row ''REMARKS''),
       rfqNumber = or_empty (row ''RFQ NUMBERS / ITEM DESCRIPTION'') \<rparr>"

text \<open>
  The mapping callback of the data service with the fixed identifier columns. It reads the
  row number under the empty header and the folder number under \<^verbatim>\<open>FOLDER NUMBER\<close>;
  every other field is read as in \<open>mapRow\<close>, which does not depend on its first argument
  there.
\<close>

definition mapRow_fixed :: "RawRow \<Rightarrow> Inquiry" where
  "mapRow_fixed row =
     (mapRow [] row)
       \<lparr> rowNum := or_zero (parseNumber (row [])),
         folderNumber := or_empty (row ''FOLDER NUMBER'') \<rparr>"

text \<open>The row filter: \<^verbatim>\<open>item.vesselName || item.qtnValue > 0 || item.rowNum > 0\<close>.\<close>

definition retained :: "Inquiry \<Rightarrow> bool" where
  "retained item = (vesselName item \<noteq> [] \<or> gt_zero (qtnValue item) \<or> gt_zero (rowNum item))"

definition validData :: "Inquiry list \<Rightarrow> Inquiry list" where
  "validData parsedData = filter retained parsedData"

text \<open>The body of the \<^verbatim>\<open>complete\<close> callback: the value the promise resolves with.\<close>

definition on_complete :: "ParseResult \<Rightarrow> Inquiry list" where
  "on_complete results = validData (map (mapRow (firstHeader (meta_fields results))) (data results))"

definition on_complete_fixed :: "ParseResult \<Rightarrow> Inquiry list" where
  "on_complete_fixed results = validData (map mapRow_fixed (data results))"

section \<open>Ingestion pipeline\<close>

text \<open>
  What the transport does in one cycle: \<^verbatim>\<open>fetch\<close> rejects, the response is not
  \<^verbatim>\<open>ok\<close> (with its status text), reading the body rejects, or the body text arrives.
\<close>

datatype transport = FetchRejects string | NotOk string | TextRejects string | Body string

text \<open>
  What the parser does with a text: it calls \<^verbatim>\<open>complete\<close> with the results or
  \<^verbatim>\<open>error\<close> with an error. The parser is a library; it is a parameter of the
  pipeline.
\<close>

datatype parsing = Complete ParseResult | ParseError string

text \<open>
  \<^verbatim>\<open>fetchSheetData\<close>. The promise it returns is fulfilled (\<open>Inr\<close>) or rejected
  (\<open>Inl\<close>). A failure of the transport is thrown inside \<^verbatim>\<open>try\<close>, so the
  \<^verbatim>\<open>catch\<close> clause logs it and returns the empty list. The parsing promise is
  returned without \<^verbatim>\<open>await\<close>, so its rejection passes the \<^verbatim>\<open>catch\<close> clause
  by and rejects the promise of \<^verbatim>\<open>fetchSheetData\<close>.
\<close>

definition fetchSheetData :: "(string \<Rightarrow> parsing) \<Rightarrow> transport \<Rightarrow> string + Inquiry list" where
  "fetchSheetData parse t =
     (case t of
        FetchRejects e \<Rightarrow> Inr []
      | NotOk statusText \<Rightarrow> Inr []
      | TextRejects e \<Rightarrow> Inr []
      | Body csvText \<Rightarrow>
          (case parse csvText of
             Complete results \<Rightarrow> Inr (on_complete results)
           | ParseError e \<Rightarrow> Inl e))"

section \<open>Component state and refresh\<close>

record App =
  isAuthenticated :: bool
  inquiries :: "Inquiry list"
  loading :: bool
  currentTime :: nat

text \<open>The state of the first render before the effects run, for a given stored session.\<close>

definition initial :: "bool \<Rightarrow> nat \<Rightarrow> App" where
  "initial auth now = \<lparr> isAuthenticated = auth, inquiries = [], loading = True, currentTime = now \<rparr>"

text \<open>
  \<^verbatim>\<open>loadData\<close> once the promise of \<^verbatim>\<open>fetchSheetData\<close> has settled: a fulfilled
  promise replaces the inquiries, a rejected one is logged; either way
  \<^verbatim>\<open>setLoading(false)\<close> runs.
\<close>

definition loadData :: "App \<Rightarrow> string + Inquiry list \<Rightarrow> App" where
  "loadData s settled =
     (case settled of
        Inr d \<Rightarrow> s\<lparr> inquiries := d, loading := False \<rparr>
      | Inl err \<Rightarrow> s\<lparr> loading := False \<rparr>)"

text \<open>One whole fetch cycle on the state.\<close>

definition cycle :: "(string \<Rightarrow> parsing) \<Rightarrow> App \<Rightarrow> transport \<Rightarrow> App" where
  "cycle parse s t = loadData s (fetchSheetData parse t)"

subsection \<open>Timers\<close>

text \<open>
  The effect starts one \<^verbatim>\<open>loadData\<close> and two intervals; its cleanup clears both
  intervals. \<open>pending\<close> counts the calls of \<^verbatim>\<open>loadData\<close> whose promise has not
  settled. A cleared interval does not fire. The completion of \<^verbatim>\<open>loadData\<close> calls the
  setters without looking at any flag.
\<close>

record Scheduler =
  app :: App
  interval :: bool
  clock :: bool
  pending :: nat

datatype event =
    Mount
  | Cleanup
  | IntervalFires
  | ClockFires nat
  | FetchSettles "string + Inquiry list"

fun step :: "Scheduler \<Rightarrow> event \<Rightarrow> Scheduler" where
  "step s Mount = s\<lparr> pending := Suc (pending s), interval := True, clock := True \<rparr>"
| "step s Cleanup = s\<lparr> interval := False, clock := False \<rparr>"
| "step s IntervalFires = (if interval s then s\<lparr> pending := Suc (pending s) \<rparr> else s)"
| "step s (ClockFires now) = (if clock s then s\<lparr> app := (app s)\<lparr> currentTime := now \<rparr> \<rparr> else s)"
| "step s (FetchSettles settled) =
     (if 0 < pending s then s\<lparr> app := loadData (app s) settled, pending := pending s - 1 \<rparr> else s)"




section \<open>Reporting window\<close>











section \<open>Aggregation\<close>

record Stats =
  totalQtnValue :: jsnum
  totalCost :: jsnum
  totalProfit :: jsnum
  totalQtnMargin :: jsnum
  totalInquiries :: nat
  confirmedOrders :: nat

text \<open>\<^verbatim>\<open>xs.reduce((acc, s) => acc + f(s), 0)\<close>.\<close>

definition reduce_add :: "('a \<Rightarrow> jsnum) \<Rightarrow> 'a list \<Rightarrow> jsnum" where
  "reduce_add f xs = foldl (\<lambda>acc s. jsadd acc (f s)) (Fin 0) xs"

definition stats :: "Inquiry list \<Rightarrow> Stats" where
  "stats filtered =
     \<lparr> totalQtnValue = reduce_add qtnValue filtered,
       totalCost = reduce_add (\<lambda>s. or_zero (qtnCost s)) filtered,
       totalProfit = reduce_add qtnProfit filtered,
       totalQtnMargin = reduce_add (\<lambda>s. or_zero (qtnMargin s)) filtered,
       totalInquiries = length filtered,
       confirmedOrders = length (filter (\<lambda>s. update s = ''CONFIRMED'') filtered) \<rparr>"



subsection \<open>The shipment dashboard\<close>

record Shipment =
  id_s :: string
  date_s :: string
  vesselName_s :: string
  origin :: string
  destination :: string
  payloadTeu :: jsnum
  revenue :: jsnum
  cost :: jsnum
  profit :: jsnum
  fuelEfficiency :: jsnum

text \<open>
  The sums of the shipment dashboard. Its average efficiency, a text formatted for
  display, is left out.
\<close>

record ShipmentStats =
  totalRevenue :: jsnum
  totalCost_s :: jsnum
  totalProfit_s :: jsnum
  totalPayload :: jsnum

definition shipment_stats :: "Shipment list \<Rightarrow> ShipmentStats" where
  "shipment_stats shipments =
     (let totalRevenue' = reduce_add revenue shipments;
          totalCost' = reduce_add cost shipments
      in \<lparr> totalRevenue = totalRevenue',
           totalCost_s = totalCost',
           totalProfit_s = jssub totalRevenue' totalCost',
           totalPayload = reduce_add payloadTeu shipments \<rparr>)"

section \<open>Access gate\<close>

text \<open>\<^verbatim>\<open>import.meta.env.VITE_DASHBOARD_PASSCODE || '1234'\<close>.\<close>

definition ACCESS_CODE :: "string option \<Rightarrow> string" where
  "ACCESS_CODE env = (case env of None \<Rightarrow> ''1234'' | Some p \<Rightarrow> if p = [] then ''1234'' else p)"

record Login =
  code :: string
  error :: bool
  isLoading :: bool

text \<open>
  \<^verbatim>\<open>handleSubmit\<close> with its delayed callback run. \<open>onLogin\<close> is the property of
  the component; it acts on the state \<open>outer\<close> of whoever supplies it.
\<close>

definition handleSubmit :: "string option \<Rightarrow> ('a \<Rightarrow> 'a) \<Rightarrow> 'a \<times> Login \<Rightarrow> 'a \<times> Login" where
  "handleSubmit env onLogin s =
     (case s of (outer, l) \<Rightarrow>
        (let l1 = l\<lparr> isLoading := True, error := False \<rparr> in
         if code l1 = ACCESS_CODE env then (onLogin outer, l1)
         else (outer, l1\<lparr> error := True, isLoading := False \<rparr>)))"

text \<open>
  \<^verbatim>\<open>handleLogin\<close> of the dashboard, on the stored flag \<^verbatim>\<open>dashboard_auth\<close> and the
  component state.
\<close>

definition handleLogin :: "string option \<times> App \<Rightarrow> string option \<times> App" where
  "handleLogin s = (case s of (stored, a) \<Rightarrow> (Some ''true'', a\<lparr> isAuthenticated := True \<rparr>))"

section \<open>Vocabulary of the properties\<close>

text \<open>A parser that answers every text the same way.\<close>

definition const_parser :: "parsing \<Rightarrow> string \<Rightarrow> parsing" where
  "const_parser p csvText = p"






section \<open>Properties of the coercion\<close>

lemma toDouble_not_NaN: "toDouble v \<noteq> NaN"
  by (simp add: toDouble_def)

lemma parseNumber_not_NaN: "parseNumber val \<noteq> NaN"
proof (cases val)
  case None
  then show ?thesis by (simp add: parseNumber_def)
next
  case (Some s)
  show ?thesis
  proof (cases "StringToNumber (cleaned s)")
    case NaN
    with Some show ?thesis by (simp add: parseNumber_def)
  qed (use Some in \<open>simp_all add: parseNumber_def Let_def\<close>)
qed

lemma DBL_OVERFLOW_gt: "10 ^ 308 < DBL_OVERFLOW"
  by (simp add: DBL_OVERFLOW_def)

lemma DBL_OVERFLOW_le: "DBL_OVERFLOW \<le> 10 ^ 309"
  by (simp add: DBL_OVERFLOW_def)

lemma toDouble_finite: "\<bar>v\<bar> < DBL_OVERFLOW \<Longrightarrow> isFinite (toDouble v)"
  by (auto simp: toDouble_def)

lemma digitVal_le: "isDigit c \<Longrightarrow> digitVal c \<le> 9"
  by (auto simp: isDigit_def digitVal_def)

lemma foldl_digits_bound:
  "list_all isDigit ds \<Longrightarrow>
   foldl (\<lambda>a c. 10 * a + digitVal c) a ds < (a + 1) * 10 ^ length ds"
proof (induction ds arbitrary: a)
  case Nil
  then show ?case by simp
next
  case (Cons c ds)
  from Cons.prems have c: "digitVal c \<le> 9" and ds: "list_all isDigit ds"
    by (simp_all add: digitVal_le)
  have "foldl (\<lambda>a c. 10 * a + digitVal c) (10 * a + digitVal c) ds
          < (10 * a + digitVal c + 1) * 10 ^ length ds"
    by (rule Cons.IH [OF ds])
  also have "\<dots> \<le> (10 * (a + 1)) * 10 ^ length ds"
    using c by (intro mult_right_mono) simp_all
  finally show ?case by (simp add: algebra_simps)
qed

lemma digitsVal_bound: "list_all isDigit ds \<Longrightarrow> digitsVal ds < 10 ^ length ds"
  using foldl_digits_bound [of ds 0] by (simp add: digitsVal_def)

lemma foldl_digits_zeros:
  "foldl (\<lambda>a c. 10 * a + digitVal c) a (replicate n (CHR ''0'')) = a * 10 ^ n"
  by (induction n arbitrary: a) (simp_all add: digitVal_def)

lemma digitsVal_one_zeros: "digitsVal (CHR ''1'' # replicate n (CHR ''0'')) = 10 ^ n"
  using foldl_digits_zeros [of 1 n] by (simp add: digitsVal_def digitVal_def)

lemma keep_one_zeros: "filter keepChar (CHR ''1'' # replicate n (CHR ''0'')) = CHR ''1'' # replicate n (CHR ''0'')"
  by (simp add: keepChar_def isDigit_def)

lemma takeWhile_one_zeros:
  "takeWhile isDigit (CHR ''1'' # replicate n (CHR ''0'')) = CHR ''1'' # replicate n (CHR ''0'')"
  by (simp add: isDigit_def)

lemma dropWhile_one_zeros:
  "dropWhile isDigit (CHR ''1'' # replicate n (CHR ''0'')) = []"
  by (simp add: isDigit_def)

lemma StringToNumber_one_zeros:
  "StringToNumber (CHR ''1'' # replicate n (CHR ''0'')) = toDouble (10 ^ n)"
  unfolding StringToNumber_def
  by (simp add: takeWhile_one_zeros dropWhile_one_zeros digitsVal_one_zeros signed_def
        del: takeWhile.simps dropWhile.simps replicate.simps)

lemma parseNumber_overflow:
  "parseNumber (Some (CHR ''1'' # replicate 309 (CHR ''0''))) = PosInf"
proof -
  have "toDouble (10 ^ 309) = PosInf"
    using DBL_OVERFLOW_le by (simp add: toDouble_def)
  then show ?thesis
    by (simp add: parseNumber_def cleaned_def keep_one_zeros StringToNumber_one_zeros
          del: replicate.simps filter.simps)
qed

lemma StringToNumber_finite:
  assumes "length s \<le> 308"
  shows "StringToNumber s = NaN \<or> isFinite (StringToNumber s)"
proof (cases "s = []")
  case True
  then show ?thesis by (simp add: StringToNumber_def)
next
  case False
  obtain neg body where sp: "signSplit s = (neg, body)" by (cases "signSplit s")
  have lb: "length body \<le> length s"
    using sp by (cases s) (auto split: if_splits)
  define ip where "ip = takeWhile isDigit body"
  have ipd: "list_all isDigit ip"
    by (simp add: ip_def list_all_iff) (metis set_takeWhileD)
  have body: "body = ip @ dropWhile isDigit body" by (simp add: ip_def)
  have eq: "StringToNumber s =
      (case dropWhile isDigit body of
         [] \<Rightarrow> if ip = [] then NaN else toDouble (signed neg (of_nat (digitsVal ip)))
       | c # fp \<Rightarrow>
           if c = CHR ''.'' \<and> list_all isDigit fp \<and> (ip \<noteq> [] \<or> fp \<noteq> [])
           then toDouble (signed neg (of_nat (digitsVal (ip @ fp)) / 10 ^ length fp))
           else NaN)"
    unfolding StringToNumber_def ip_def using False sp by (simp add: Let_def)
  have lens: "length ip + length (dropWhile isDigit body) \<le> 308"
    using lb assms by (metis body length_append le_trans)
  show ?thesis
  proof (cases "dropWhile isDigit body")
    case Nil
    have "digitsVal ip < 10 ^ length ip" by (rule digitsVal_bound [OF ipd])
    also have "\<dots> \<le> (10::nat) ^ 308"
      using lens by (intro power_increasing) simp_all
    finally have "(of_nat (digitsVal ip) :: rat) < 10 ^ 308"
      by (metis of_nat_less_iff of_nat_numeral of_nat_power)
    then have "\<bar>signed neg (of_nat (digitsVal ip))\<bar> < DBL_OVERFLOW"
      using DBL_OVERFLOW_gt by (simp add: signed_def)
    then show ?thesis
      unfolding eq Nil by (simp add: toDouble_finite)
  next
    case (Cons c fp)
    show ?thesis
    proof (cases "c = CHR ''.'' \<and> list_all isDigit fp \<and> (ip \<noteq> [] \<or> fp \<noteq> [])")
      case False
      then show ?thesis
        unfolding eq Cons by auto
    next
      case True
      then have all: "list_all isDigit (ip @ fp)" using ipd by simp
      have len: "length (ip @ fp) \<le> 308"
        using lens Cons by simp
      have "digitsVal (ip @ fp) < 10 ^ length (ip @ fp)" by (rule digitsVal_bound [OF all])
      also have "\<dots> \<le> (10::nat) ^ 308" using len by (intro power_increasing) simp_all
      finally have b: "(of_nat (digitsVal (ip @ fp)) :: rat) < 10 ^ 308"
        by (metis of_nat_less_iff of_nat_numeral of_nat_power)
      have "(of_nat (digitsVal (ip @ fp)) :: rat) / 10 ^ length fp \<le> of_nat (digitsVal (ip @ fp))"
        by (simp add: divide_le_eq mult_le_cancel_left1)
      with b have "\<bar>signed neg (of_nat (digitsVal (ip @ fp)) / 10 ^ length fp)\<bar> < DBL_OVERFLOW"
        using DBL_OVERFLOW_gt by (simp add: signed_def)
      then show ?thesis
        unfolding eq Cons using True by (simp add: toDouble_finite)
    qed
  qed
qed

lemma parseNumber_finite:
  assumes "length (cleaned s) \<le> 308"
  shows "isFinite (parseNumber (Some s))"
proof (cases "s = []")
  case True
  then show ?thesis by (simp add: parseNumber_def)
next
  case False
  from StringToNumber_finite [OF assms] show ?thesis
  proof
    assume "StringToNumber (cleaned s) = NaN"
    then show ?thesis using False by (simp add: parseNumber_def)
  next
    assume "isFinite (StringToNumber (cleaned s))"
    then show ?thesis
      using False by (cases "StringToNumber (cleaned s)") (simp_all add: parseNumber_def)
  qed
qed

lemma parseNumber_unfold:
  "s \<noteq> [] \<Longrightarrow>
   parseNumber (Some s) =
     (if StringToNumber (cleaned s) = NaN then Fin 0 else StringToNumber (cleaned s))"
  by (cases "StringToNumber (cleaned s)") (simp_all add: parseNumber_def)

lemma cleaned_alphabet: "cleaned s = filter (\<lambda>c. c \<in> set ''0123456789.-'') s"
  unfolding cleaned_def by (rule filter_cong) (auto simp: keepChar_def isDigit_def)

lemma parseNumber_currency: "parseNumber (Some ''$1,234.50'') = Fin (2469 / 2)"
  by (simp add: parseNumber_def StringToNumber_def cleaned_def keepChar_def isDigit_def
        digitsVal_def digitVal_def toDouble_def DBL_OVERFLOW_def DBL_UNDERFLOW_def signed_def)

text \<open>
  C3, as stated, asks for a finite result on every text. The text made of \<open>1\<close> and 309
  zeros is kept whole by the cleaning, denotes \<open>10^309\<close>, and converts to the positive
  infinity, which is not NaN and is returned.
\<close>

theorem parseNumber_finite_counterexample:
  "\<not> isFinite (parseNumber (Some (CHR ''1'' # replicate 309 (CHR ''0''))))"
  by (simp only: parseNumber_overflow isFinite.simps not_False_eq_True)

text \<open>
  C3, amended. For every text, also an absent one, \<open>parseNumber\<close> removes every character
  other than a digit, a point or a minus sign, converts what is left, and returns a number
  that is never NaN: \<open>0\<close> for an absent or empty text and for a remainder that does not
  convert. The result is finite whenever at most 308 characters are left after the
  cleaning; a longer remainder can convert to an infinity, which is returned as it is.
  The text \<^verbatim>\<open>$1,234.50\<close> gives \<open>1234.5\<close>.
\<close>

theorem parseNumber_never_NaN:
  "parseNumber val \<noteq> NaN \<and>
   parseNumber None = Fin 0 \<and>
   parseNumber (Some []) = Fin 0 \<and>
   cleaned s = filter (\<lambda>c. c \<in> set ''0123456789.-'') s \<and>
   (s \<noteq> [] \<longrightarrow>
      parseNumber (Some s) =
        (if StringToNumber (cleaned s) = NaN then Fin 0 else StringToNumber (cleaned s))) \<and>
   (length (cleaned s) \<le> 308 \<longrightarrow> isFinite (parseNumber (Some s))) \<and>
   parseNumber (Some ''$1,234.50'') = Fin (2469 / 2)"
  using parseNumber_not_NaN [of val] parseNumber_finite [of s] parseNumber_unfold [of s]
    cleaned_alphabet [of s] parseNumber_currency
  by (simp add: parseNumber_def)

theorem parseNumber_never_NaN_witness:
  "''12 units'' \<noteq> [] \<and> length (cleaned ''12 units'') \<le> 308 \<and>
   parseNumber (Some ''12 units'') = Fin 12 \<and> isFinite (parseNumber (Some ''12 units''))"
proof -
  have c: "cleaned ''12 units'' = ''12''"
    by (simp add: cleaned_def keepChar_def isDigit_def)
  have n: "StringToNumber ''12'' = Fin 12"
    by (simp add: StringToNumber_def isDigit_def digitsVal_def digitVal_def toDouble_def
          DBL_OVERFLOW_def DBL_UNDERFLOW_def signed_def)
  show ?thesis
    using parseNumber_never_NaN [of "Some ''12 units''" "''12 units''"]
    by (simp add: c n)
qed

section \<open>Properties of the record mapper\<close>





















lemmas eval_number = parseNumber_def StringToNumber_def cleaned_def keepChar_def isDigit_def
  digitsVal_def digitVal_def toDouble_def DBL_OVERFLOW_def DBL_UNDERFLOW_def signed_def








lemma complete_with_fields:
  "meta_fields results = Some (h # hs) \<Longrightarrow>
   on_complete results = validData (map (mapRow h) (data results))"
  by (simp add: on_complete_def firstHeader_def)

lemma complete_without_fields:
  "meta_fields results = None \<Longrightarrow>
   on_complete results = validData (map (mapRow ''FOLDER NUMBER'') (data results))"
  by (simp add: on_complete_def firstHeader_def)

text \<open>
  C2, amended. In the data service with the dynamic first column, when the parse reports a
  header list that is not empty, the row number and the folder number are read under the
  header at position \<open>0\<close>, whatever its text; when the parse reports no header list they
  are read under \<^verbatim>\<open>FOLDER NUMBER\<close>. The data service with the fixed columns reads the
  row number under the empty header and the folder number under \<^verbatim>\<open>FOLDER NUMBER\<close>.
\<close>

theorem identifier_first_header:
  "(meta_fields results = Some (h # hs) \<longrightarrow>
      on_complete results = validData (map (mapRow h) (data results))) \<and>
   rowNum (mapRow h row) = or_zero (parseNumber (row h)) \<and>
   folderNumber (mapRow h row) = or_empty (row h) \<and>
   (meta_fields results = None \<longrightarrow>
      on_complete results = validData (map (mapRow ''FOLDER NUMBER'') (data results))) \<and>
   on_complete_fixed results = validData (map mapRow_fixed (data results)) \<and>
   rowNum (mapRow_fixed row) = or_zero (parseNumber (row [])) \<and>
   folderNumber (mapRow_fixed row) = or_empty (row ''FOLDER NUMBER'')"
  using complete_with_fields [of results h hs] complete_without_fields [of results]
  by (simp add: mapRow_def mapRow_fixed_def on_complete_fixed_def)

text \<open>A parse whose first header is the empty text, and a parse without a header list.\<close>

theorem identifier_first_header_witness:
  "meta_fields \<lparr> data = [[[] \<mapsto> ''7'']], meta_fields = Some [[], ''YEAR''] \<rparr> = Some ([] # [''YEAR'']) \<and>
   map folderNumber (on_complete \<lparr> data = [[[] \<mapsto> ''7'']], meta_fields = Some [[], ''YEAR''] \<rparr>) = [''7''] \<and>
   map rowNum (on_complete \<lparr> data = [[[] \<mapsto> ''7'']], meta_fields = Some [[], ''YEAR''] \<rparr>) = [Fin 7] \<and>
   meta_fields \<lparr> data = [[''FOLDER NUMBER'' \<mapsto> ''7'']], meta_fields = None \<rparr> = None \<and>
   map folderNumber (on_complete \<lparr> data = [[''FOLDER NUMBER'' \<mapsto> ''7'']], meta_fields = None \<rparr>) = [''7'']"
proof -
  have n: "parseNumber (Some ''7'') = Fin 7" by (simp add: eval_number)
  have r1: "retained (mapRow [] [[] \<mapsto> ''7''])"
    by (simp add: retained_def mapRow_def n or_zero_def)
  have r2: "retained (mapRow ''FOLDER NUMBER'' [''FOLDER NUMBER'' \<mapsto> ''7''])"
    by (simp add: retained_def mapRow_def n or_zero_def)
  show ?thesis
    using identifier_first_header
            [of "\<lparr> data = [[[] \<mapsto> ''7'']], meta_fields = Some [[], ''YEAR''] \<rparr>" "[]" "[''YEAR'']"
                "[[] \<mapsto> ''7'']"]
          identifier_first_header
            [of "\<lparr> data = [[''FOLDER NUMBER'' \<mapsto> ''7'']], meta_fields = None \<rparr>"
                "''FOLDER NUMBER''" "[]" "[''FOLDER NUMBER'' \<mapsto> ''7'']"]
          r1 r2
    by (simp add: validData_def n or_zero_def or_empty_def)
qed

text \<open>
  C2, as stated, asks that the identifier is never read under a fixed header name. With the
  headers \<^verbatim>\<open>ID\<close>, \<^verbatim>\<open>FOLDER NUMBER\<close>, \<^verbatim>\<open>VESSEL NAME\<close> the data service with the
  fixed columns takes the folder number from the second column and finds no row number,
  although the first column holds \<open>7\<close>; and without a header list the data service with
  the dynamic first column reads the folder number under \<^verbatim>\<open>FOLDER NUMBER\<close> as well.
\<close>

theorem identifier_fixed_name_counterexample:
  "map folderNumber
     (on_complete_fixed
        \<lparr> data = [[''ID'' \<mapsto> ''7'', ''FOLDER NUMBER'' \<mapsto> ''F-1'', ''VESSEL NAME'' \<mapsto> ''MV A'']],
          meta_fields = Some [''ID'', ''FOLDER NUMBER'', ''VESSEL NAME''] \<rparr>) = [''F-1''] \<and>
   map rowNum
     (on_complete_fixed
        \<lparr> data = [[''ID'' \<mapsto> ''7'', ''FOLDER NUMBER'' \<mapsto> ''F-1'', ''VESSEL NAME'' \<mapsto> ''MV A'']],
          meta_fields = Some [''ID'', ''FOLDER NUMBER'', ''VESSEL NAME''] \<rparr>) = [Fin 0] \<and>
   map folderNumber
     (on_complete
        \<lparr> data = [[''ID'' \<mapsto> ''7'', ''FOLDER NUMBER'' \<mapsto> ''F-1'', ''VESSEL NAME'' \<mapsto> ''MV A'']],
          meta_fields = None \<rparr>) = [''F-1'']"
proof -
  have v: "trim ''MV A'' = ''MV A''" by (simp add: trim_def isSpace_def)
  show ?thesis
    by (simp add: on_complete_fixed_def on_complete_def validData_def retained_def mapRow_fixed_def
          mapRow_def firstHeader_def or_empty_def or_zero_def parseNumber_def v)
qed

section \<open>Properties of the pipeline and the refresh\<close>

lemma loadData_loading: "loading (loadData s settled) = False"
  by (cases settled) (simp_all add: loadData_def)


text \<open>
  C1, amended. After every cycle \<open>loading\<close> is false. When the transport fails (the
  request rejects, the status is not a success, or reading the body rejects) the pipeline
  gives its caller no failure signal: its promise is fulfilled with the empty list, which
  replaces the inquiries held. When the parser reports an error the promise is rejected
  with it and the inquiries held stay as they are. When the parser completes, the inquiries
  are the rows it kept.
\<close>

theorem failed_cycle:
  "loading (cycle parse s t) = False \<and>
   fetchSheetData parse (FetchRejects e) = Inr [] \<and>
   fetchSheetData parse (NotOk statusText) = Inr [] \<and>
   fetchSheetData parse (TextRejects e) = Inr [] \<and>
   inquiries (cycle parse s (FetchRejects e)) = [] \<and>
   inquiries (cycle parse s (NotOk statusText)) = [] \<and>
   inquiries (cycle parse s (TextRejects e)) = [] \<and>
   (parse csvText = ParseError e \<longrightarrow>
      fetchSheetData parse (Body csvText) = Inl e \<and>
      inquiries (cycle parse s (Body csvText)) = inquiries s) \<and>
   (parse csvText = Complete results \<longrightarrow>
      inquiries (cycle parse s (Body csvText)) = on_complete results)"
proof -
  have "loading (cycle parse s t) = False"
    by (simp add: cycle_def loadData_loading)
  then show ?thesis
    by (simp add: cycle_def fetchSheetData_def loadData_def)
qed

text \<open>Five inquiries held, then a parse that fails and a parse that completes with no rows.\<close>

theorem failed_cycle_witness:
  "const_parser (ParseError ''Unterminated quote'') ''a,b'' = ParseError ''Unterminated quote'' \<and>
   inquiries
     (cycle (const_parser (ParseError ''Unterminated quote''))
        ((initial True 0)\<lparr> inquiries := replicate 5 (mapRow [] Map.empty) \<rparr>) (Body ''a,b'')) =
     replicate 5 (mapRow [] Map.empty) \<and>
   const_parser (Complete \<lparr> data = [], meta_fields = None \<rparr>) ''a,b'' =
     Complete \<lparr> data = [], meta_fields = None \<rparr> \<and>
   inquiries
     (cycle (const_parser (Complete \<lparr> data = [], meta_fields = None \<rparr>))
        ((initial True 0)\<lparr> inquiries := replicate 5 (mapRow [] Map.empty) \<rparr>) (Body ''a,b'')) = []"
  using
    failed_cycle [where parse = "const_parser (ParseError ''Unterminated quote'')"
       and s = "(initial True 0)\<lparr> inquiries := replicate 5 (mapRow [] Map.empty) \<rparr>"
       and csvText = "''a,b''" and e = "''Unterminated quote''"]
    failed_cycle [where parse = "const_parser (Complete \<lparr> data = [], meta_fields = None \<rparr>)"
       and s = "(initial True 0)\<lparr> inquiries := replicate 5 (mapRow [] Map.empty) \<rparr>"
       and csvText = "''a,b''" and results = "\<lparr> data = [], meta_fields = None \<rparr>"]
  by (simp add: const_parser_def initial_def on_complete_def validData_def)

text \<open>
  C1, as stated, asks that a failed cycle leaves the \<open>n\<close> inquiries held in place. A
  first cycle parses five rows and five inquiries are held. A second cycle gets a response
  whose status is not a success: the pipeline fulfils its promise with the empty list and
  no inquiry is left.
\<close>

theorem failed_cycle_counterexample:
  "length
     (inquiries
        (cycle
           (const_parser
              (Complete \<lparr> data = replicate 5 [''VESSEL NAME'' \<mapsto> ''MV A''],
                          meta_fields = Some [''VESSEL NAME''] \<rparr>))
           (initial True 0) (Body ''VESSEL NAME''))) = 5 \<and>
   fetchSheetData
     (const_parser
        (Complete \<lparr> data = replicate 5 [''VESSEL NAME'' \<mapsto> ''MV A''],
                    meta_fields = Some [''VESSEL NAME''] \<rparr>))
     (NotOk ''Service Unavailable'') = Inr [] \<and>
   length
     (inquiries
        (cycle
           (const_parser
              (Complete \<lparr> data = replicate 5 [''VESSEL NAME'' \<mapsto> ''MV A''],
                          meta_fields = Some [''VESSEL NAME''] \<rparr>))
           (cycle
              (const_parser
                 (Complete \<lparr> data = replicate 5 [''VESSEL NAME'' \<mapsto> ''MV A''],
                             meta_fields = Some [''VESSEL NAME''] \<rparr>))
              (initial True 0) (Body ''VESSEL NAME''))
           (NotOk ''Service Unavailable''))) = 0"
proof -
  have v: "trim ''MV A'' = ''MV A''" by (simp add: trim_def isSpace_def)
  have r: "retained (mapRow ''VESSEL NAME'' [''VESSEL NAME'' \<mapsto> ''MV A''])"
    by (simp add: retained_def mapRow_def or_empty_def v)
  have c: "on_complete \<lparr> data = replicate 5 [''VESSEL NAME'' \<mapsto> ''MV A''],
                          meta_fields = Some [''VESSEL NAME''] \<rparr> =
           replicate 5 (mapRow ''VESSEL NAME'' [''VESSEL NAME'' \<mapsto> ''MV A''])"
    by (simp add: on_complete_def validData_def firstHeader_def r del: replicate.simps replicate_Suc)
  show ?thesis
    by (simp add: cycle_def fetchSheetData_def loadData_def const_parser_def c
          del: replicate.simps replicate_Suc)
qed

section \<open>Properties of the timers\<close>








section \<open>Properties of the access gate\<close>

lemma ACCESS_CODE_cases:
  "ACCESS_CODE None = ''1234'' \<and> ACCESS_CODE (Some []) = ''1234'' \<and>
   (p \<noteq> [] \<longrightarrow> ACCESS_CODE (Some p) = p)"
  by (simp add: ACCESS_CODE_def)

text \<open>
  C10. Submitting the form calls \<open>onLogin\<close> exactly when the code entered equals the
  passcode, once; the passcode is the configured one, or \<^verbatim>\<open>1234\<close> when none or an empty
  one is configured. With any other code the error flag is set, the form stops loading,
  \<open>onLogin\<close> is not called, and the stored flag and the state of the dashboard are as
  before. With the passcode, the dashboard's \<open>handleLogin\<close> stores the flag and sets
  \<open>isAuthenticated\<close>.
\<close>

theorem login_admits_iff:
  "fst (handleSubmit env onLogin (outer, l)) =
     (if code l = ACCESS_CODE env then onLogin outer else outer) \<and>
   fst (handleSubmit env Suc (0, l)) = (if code l = ACCESS_CODE env then 1 else 0) \<and>
   (code l \<noteq> ACCESS_CODE env \<longrightarrow>
      error (snd (handleSubmit env onLogin (outer, l))) \<and>
      \<not> isLoading (snd (handleSubmit env onLogin (outer, l))) \<and>
      fst (handleSubmit env handleLogin ((stored, a), l)) = (stored, a)) \<and>
   (code l = ACCESS_CODE env \<longrightarrow>
      \<not> error (snd (handleSubmit env onLogin (outer, l))) \<and>
      fst (handleSubmit env handleLogin ((stored, a), l)) =
        (Some ''true'', a\<lparr> isAuthenticated := True \<rparr>)) \<and>
   ACCESS_CODE None = ''1234'' \<and> ACCESS_CODE (Some []) = ''1234'' \<and>
   (p \<noteq> [] \<longrightarrow> ACCESS_CODE (Some p) = p)"
  using ACCESS_CODE_cases [of p]
  by (simp add: handleSubmit_def handleLogin_def Let_def)

text \<open>A wrong code against the default passcode, and the right code against a configured one.\<close>

theorem login_admits_iff_witness:
  "code \<lparr> code = ''0000'', error = False, isLoading = False \<rparr> \<noteq> ACCESS_CODE None \<and>
   fst (handleSubmit None handleLogin
          ((None, initial False 0), \<lparr> code = ''0000'', error = False, isLoading = False \<rparr>)) =
     (None, initial False 0) \<and>
   code \<lparr> code = ''s3cret'', error = True, isLoading = False \<rparr> = ACCESS_CODE (Some ''s3cret'') \<and>
   ''s3cret'' \<noteq> [] \<and>
   isAuthenticated (snd (fst (handleSubmit (Some ''s3cret'') handleLogin
          ((None, initial False 0), \<lparr> code = ''s3cret'', error = True, isLoading = False \<rparr>))))"
  using login_admits_iff [where env = None and stored = None and a = "initial False 0"
          and onLogin = handleLogin and outer = "(None, initial False 0)"
          and l = "\<lparr> code = ''0000'', error = False, isLoading = False \<rparr>"]
        login_admits_iff [where env = "Some ''s3cret''" and stored = None and a = "initial False 0"
          and onLogin = handleLogin and outer = "(None, initial False 0)"
          and l = "\<lparr> code = ''s3cret'', error = True, isLoading = False \<rparr>" and p = "''s3cret''"]
  by (simp add: ACCESS_CODE_def handleLogin_def)

section \<open>Properties of the reporting window\<close>











section \<open>Properties of the aggregation\<close>

lemma DBL_OVERFLOW_gt_53: "2 ^ 53 < DBL_OVERFLOW"
  by (simp add: DBL_OVERFLOW_def)

lemma DBL_UNDERFLOW_lt_1: "DBL_UNDERFLOW < 1"
  by (simp add: DBL_UNDERFLOW_def)

lemma toDouble_int:
  assumes "\<bar>n\<bar> \<le> (2::int) ^ 53"
  shows "toDouble (of_int n) = Fin (of_int n)"
proof -
  have "\<bar>of_int n :: rat\<bar> \<le> 2 ^ 53"
    using assms by (metis of_int_abs of_int_le_iff of_int_numeral of_int_power)
  then have a: "\<bar>of_int n :: rat\<bar> < DBL_OVERFLOW"
    using DBL_OVERFLOW_gt_53 by linarith
  have b: "n \<noteq> 0 \<Longrightarrow> DBL_UNDERFLOW < \<bar>of_int n :: rat\<bar>"
  proof -
    assume "n \<noteq> 0"
    then have "1 \<le> \<bar>n\<bar>" by linarith
    then have "(1::rat) \<le> \<bar>of_int n\<bar>"
      by (metis of_int_abs of_int_1_le_iff)
    then show ?thesis using DBL_UNDERFLOW_lt_1 by linarith
  qed
  show ?thesis
  proof (cases "n = 0")
    case True
    then show ?thesis by (simp add: toDouble_def DBL_OVERFLOW_def DBL_UNDERFLOW_def)
  next
    case False
    with a b show ?thesis by (auto simp: toDouble_def)
  qed
qed

lemma foldl_jsadd_exact:
  assumes "\<forall>k \<le> length vs. \<bar>a + sum_list (take k vs)\<bar> \<le> (2::int) ^ 53"
  shows "foldl jsadd (Fin (of_int a)) (map (\<lambda>v. Fin (of_int v)) vs) = Fin (of_int (a + sum_list vs))"
  using assms
proof (induction vs arbitrary: a)
  case Nil
  then show ?case by simp
next
  case (Cons v vs)
  from Cons.prems have "\<bar>a + sum_list (take 1 (v # vs))\<bar> \<le> 2 ^ 53"
    by (metis One_nat_def Suc_leI length_Cons zero_less_Suc)
  then have av: "\<bar>a + v\<bar> \<le> 2 ^ 53" by simp
  have step: "toDouble (of_int a + of_int v) = Fin (of_int a + of_int v)"
    using toDouble_int [OF av] by simp
  have rest: "\<forall>k \<le> length vs. \<bar>(a + v) + sum_list (take k vs)\<bar> \<le> 2 ^ 53"
  proof (intro allI impI)
    fix k assume "k \<le> length vs"
    then have "Suc k \<le> length (v # vs)" by simp
    with Cons.prems have "\<bar>a + sum_list (take (Suc k) (v # vs))\<bar> \<le> 2 ^ 53" by blast
    then show "\<bar>(a + v) + sum_list (take k vs)\<bar> \<le> 2 ^ 53" by (simp add: add.assoc)
  qed
  show ?case
    using Cons.IH [OF rest] by (simp add: step add.assoc)
qed

lemma reduce_add_foldl: "reduce_add f xs = foldl jsadd (Fin 0) (map f xs)"
  by (simp add: reduce_add_def foldl_map)

lemma reduce_add_exact:
  assumes "map f xs = map (\<lambda>v. Fin (of_int v)) vs"
    and "\<forall>k \<le> length vs. \<bar>sum_list (take k vs)\<bar> \<le> (2::int) ^ 53"
  shows "reduce_add f xs = Fin (of_int (sum_list vs))"
  using foldl_jsadd_exact [of vs 0] assms by (simp add: reduce_add_foldl)

lemma reduce_add_snoc: "reduce_add f (xs @ [x]) = jsadd (reduce_add f xs) (f x)"
  by (simp add: reduce_add_def)

lemma or_zero_id: "x \<noteq> NaN \<Longrightarrow> or_zero x = x"
  by (cases x) (simp_all add: or_zero_def)

lemma reduce_add_or_zero:
  assumes "list_all (\<lambda>s. f s \<noteq> NaN) xs"
  shows "reduce_add (\<lambda>s. or_zero (f s)) xs = reduce_add f xs"
proof -
  have m: "map (\<lambda>s. or_zero (f s)) xs = map f xs"
    using assms by (simp add: list_all_iff or_zero_id)
  show ?thesis unfolding reduce_add_foldl m by (rule refl)
qed

lemmas eval_double = toDouble_def DBL_OVERFLOW_def DBL_UNDERFLOW_def

text \<open>
  C6, as stated, asks that the total profit is the sum of the records' profit field. For
  one shipment with revenue \<open>100\<close>, cost \<open>60\<close> and profit \<open>10\<close> the shipment dashboard
  reports a total profit of \<open>40\<close>, the total revenue less the total cost.
\<close>

theorem shipment_profit_counterexample:
  "totalProfit_s
     (shipment_stats
        [\<lparr> id_s = ''SHP-0041'', date_s = ''2026-02-10'', vesselName_s = ''Blue Horizon'',
            origin = ''SGP'', destination = ''NLD'', payloadTeu = Fin 14200, revenue = Fin 100,
            cost = Fin 60, profit = Fin 10, fuelEfficiency = Fin (21 / 50) \<rparr>]) = Fin 40 \<and>
   reduce_add profit
        [\<lparr> id_s = ''SHP-0041'', date_s = ''2026-02-10'', vesselName_s = ''Blue Horizon'',
            origin = ''SGP'', destination = ''NLD'', payloadTeu = Fin 14200, revenue = Fin 100,
            cost = Fin 60, profit = Fin 10, fuelEfficiency = Fin (21 / 50) \<rparr>] = Fin 10"
  by (simp add: shipment_stats_def Let_def reduce_add_def jssub_def eval_double)

text \<open>
  C6, amended. The totals of the inquiry dashboard are the sums, accumulated from \<open>0\<close> in
  list order, of the value field, of the cost field (a cost that is NaN or \<open>0\<close> counting
  as \<open>0\<close>) and of the profit field; for whole-number fields whose running sums stay within
  \<open>2^53\<close> such a sum is the exact sum. In the shipment dashboard the total revenue and the
  total cost are such sums, and the total profit is the total revenue less the total cost.
\<close>

theorem stats_sums:
  "totalQtnValue (stats xs) = reduce_add qtnValue xs \<and>
   totalProfit (stats xs) = reduce_add qtnProfit xs \<and>
   (list_all (\<lambda>s. qtnCost s \<noteq> NaN) xs \<longrightarrow> totalCost (stats xs) = reduce_add qtnCost xs) \<and>
   reduce_add f [] = Fin 0 \<and>
   reduce_add f (ys @ [y]) = jsadd (reduce_add f ys) (f y) \<and>
   (map f ys = map (\<lambda>v. Fin (of_int v)) vs \<and>
    (\<forall>k \<le> length vs. \<bar>sum_list (take k vs)\<bar> \<le> (2::int) ^ 53) \<longrightarrow>
      reduce_add f ys = Fin (of_int (sum_list vs))) \<and>
   totalRevenue (shipment_stats zs) = reduce_add revenue zs \<and>
   totalCost_s (shipment_stats zs) = reduce_add cost zs \<and>
   totalProfit_s (shipment_stats zs) = jssub (reduce_add revenue zs) (reduce_add cost zs)"
proof -
  have a: "list_all (\<lambda>s. qtnCost s \<noteq> NaN) xs \<longrightarrow> totalCost (stats xs) = reduce_add qtnCost xs"
    by (simp add: stats_def reduce_add_or_zero)
  have b: "reduce_add f [] = Fin 0"
    by (simp add: reduce_add_def)
  have c: "map f ys = map (\<lambda>v. Fin (of_int v)) vs \<and>
    (\<forall>k \<le> length vs. \<bar>sum_list (take k vs)\<bar> \<le> (2::int) ^ 53) \<longrightarrow>
      reduce_add f ys = Fin (of_int (sum_list vs))"
    using reduce_add_exact [of f ys vs] by blast
  have d: "totalRevenue (shipment_stats zs) = reduce_add revenue zs \<and>
   totalCost_s (shipment_stats zs) = reduce_add cost zs \<and>
   totalProfit_s (shipment_stats zs) = jssub (reduce_add revenue zs) (reduce_add cost zs)"
    by (simp add: shipment_stats_def Let_def)
  have e: "totalQtnValue (stats xs) = reduce_add qtnValue xs \<and>
   totalProfit (stats xs) = reduce_add qtnProfit xs"
    by (simp add: stats_def)
  show ?thesis
    using a b c d e reduce_add_snoc [of f ys y] by blast
qed

text \<open>Two inquiries with whole-number cost and profit.\<close>

theorem stats_sums_witness:
  "totalProfit
     (stats [(mapRow [] Map.empty)\<lparr> qtnCost := Fin 60, qtnProfit := Fin 40 \<rparr>,
             (mapRow [] Map.empty)\<lparr> qtnCost := Fin 25, qtnProfit := Fin (- 5) \<rparr>]) = Fin 35 \<and>
   totalCost
     (stats [(mapRow [] Map.empty)\<lparr> qtnCost := Fin 60, qtnProfit := Fin 40 \<rparr>,
             (mapRow [] Map.empty)\<lparr> qtnCost := Fin 25, qtnProfit := Fin (- 5) \<rparr>]) = Fin 85"
proof -
  define xs where "xs = [(mapRow [] Map.empty)\<lparr> qtnCost := Fin 60, qtnProfit := Fin 40 \<rparr>,
             (mapRow [] Map.empty)\<lparr> qtnCost := Fin 25, qtnProfit := Fin (- 5) \<rparr>]"
  have n: "list_all (\<lambda>s. qtnCost s \<noteq> NaN) xs" by (simp add: xs_def)
  have p: "map qtnProfit xs = map (\<lambda>v. Fin (of_int v)) [40, - 5]" by (simp add: xs_def)
  have pb: "\<forall>k \<le> length [40, - 5 :: int]. \<bar>sum_list (take k [40, - 5])\<bar> \<le> (2::int) ^ 53"
  proof (intro allI impI)
    fix k :: nat
    assume "k \<le> length ([40, - 5 :: int])"
    then have "k = 0 \<or> k = 1 \<or> k = 2" by (simp, arith)
    then show "\<bar>sum_list (take k [40, - 5])\<bar> \<le> (2::int) ^ 53" by auto
  qed
  have c: "map qtnCost xs = map (\<lambda>v. Fin (of_int v)) [60, 25]" by (simp add: xs_def)
  have cb: "\<forall>k \<le> length [60, 25 :: int]. \<bar>sum_list (take k [60, 25])\<bar> \<le> (2::int) ^ 53"
  proof (intro allI impI)
    fix k :: nat
    assume "k \<le> length ([60, 25 :: int])"
    then have "k = 0 \<or> k = 1 \<or> k = 2" by (simp, arith)
    then show "\<bar>sum_list (take k [60, 25])\<bar> \<le> (2::int) ^ 53" by auto
  qed
  have "totalProfit (stats xs) = Fin 35 \<and> totalCost (stats xs) = Fin 85"
    using n p pb c cb
      stats_sums [where xs = xs and f = qtnProfit and ys = xs and vs = "[40, - 5]"]
      stats_sums [where xs = xs and f = qtnCost and ys = xs and vs = "[60, 25]"]
    by simp
  then show ?thesis by (simp add: xs_def)
qed


end
